theory Spec2Isabelle
  imports Main
begin

section \<open>Function.memoize: the cache engine of polyfill.js\<close>

subsection \<open>JavaScript values\<close>

text \<open>
  The cache never looks inside a value: it asks for its \<open>typeof\<close> and its
  \<open>toString\<close> tag, compares it with \<open>===\<close>, uses it as a \<open>Map\<close> key and hands it to
  the user's functions. A value is therefore its kind and its identity. \<open>Num\<close>
  stands for the numbers other than \<open>NaN\<close> (\<open>+0\<close> and \<open>-0\<close>, which neither \<open>===\<close> nor
  a \<open>Map\<close> tells apart, are one value); \<open>Obj\<close> and \<open>Fun\<close> carry the address of an
  object whose \<open>typeof\<close> is \<open>"object"\<close>, respectively \<open>"function"\<close>.
\<close>

datatype val =
    Undefined
  | Null
  | Bool bool
  | Num int
  | NaN
  | Str string
  | Sym nat
  | Obj nat
  | Fun nat

fun typeof :: "val \<Rightarrow> string" where
  "typeof Undefined = ''undefined''"
| "typeof Null = ''object''"
| "typeof (Bool b) = ''boolean''"
| "typeof (Num n) = ''number''"
| "typeof NaN = ''number''"
| "typeof (Str s) = ''string''"
| "typeof (Sym n) = ''symbol''"
| "typeof (Obj a) = ''object''"
| "typeof (Fun a) = ''function''"

text \<open>The primitive values of the language; objects and functions are the others.\<close>

fun primitive :: "val \<Rightarrow> bool" where
  "primitive (Obj a) = False"
| "primitive (Fun a) = False"
| "primitive v = True"

text \<open>\<open>!v\<close>: the values that count as false.\<close>

fun falsy :: "val \<Rightarrow> bool" where
  "falsy Undefined = True"
| "falsy Null = True"
| "falsy (Bool b) = (\<not> b)"
| "falsy (Num n) = (n = 0)"
| "falsy NaN = True"
| "falsy (Str s) = (s = [])"
| "falsy v = False"

text \<open>
  What a call raises: a \<open>TypeError\<close> of the engine (an assignment to a \<open>const\<close>, the
  spread of a value that is not iterable, the call of a property that is not a
  function), or whatever value the user's code throws.
\<close>

datatype error = TypeError | Thrown val

text \<open>\<open>a === b\<close>: the same value, except that \<open>NaN\<close> is not equal to itself.\<close>

definition referenitalEquality :: "val \<Rightarrow> val \<Rightarrow> bool" where
  "referenitalEquality a b = (a = b \<and> a \<noteq> NaN)"

definition isNonNullObject :: "val \<Rightarrow> bool" where
  "isNonNullObject o' = (o' \<noteq> Null \<and> typeof o' = ''object'')"

subsection \<open>The heap, weak references and nodes\<close>

text \<open>
  What the cache reads of the heap at the moment of a call. \<open>gone\<close> is the set of
  the objects that the collector has reclaimed so far. \<open>tagged v\<close> tells what
  \<open>Object.prototype.toString.call(v)\<close> answers for a value \<open>v\<close> that is stored as it
  is, not through a \<open>WeakRef\<close> made by the cache: \<open>None\<close> when the tag is not
  \<open>"WeakRef"\<close>, as for every value unless the program gives it that tag (a function
  with its own \<open>Symbol.toStringTag\<close>, say); otherwise what calling \<open>v.deref()\<close> does,
  which is a \<open>TypeError\<close> when \<open>v\<close> has no such method. The program can change
  either between two calls. The \<open>WeakRef\<close>s that the cache makes, its symbol
  \<open>NO_VALUE\<close> and the built-in \<open>Map\<close> are as the language defines them.
\<close>

record heap =
  gone :: "val set"
  tagged :: "val \<Rightarrow> (error + val) option"

text \<open>
  A \<open>Map\<close> key and a stored result are either the value itself or a \<open>WeakRef\<close> to it,
  made by \<open>new WeakRef\<close>.
\<close>

datatype boxed = Direct val | WeakRef val

text \<open>
  \<open>isWeakRef\<close> reads the \<open>toString\<close> tag. The tag of \<open>undefined\<close> and of \<open>null\<close> is
  fixed by the language.
\<close>

fun isWeakRef :: "heap \<Rightarrow> boxed \<Rightarrow> bool" where
  "isWeakRef h (WeakRef t) = True"
| "isWeakRef h (Direct v) = (v \<noteq> Undefined \<and> v \<noteq> Null \<and> tagged h v \<noteq> None)"

text \<open>\<open>k.deref()\<close>: of a \<open>WeakRef\<close> to a reclaimed object it is \<open>undefined\<close>.\<close>

fun deref :: "heap \<Rightarrow> boxed \<Rightarrow> error + val" where
  "deref h (WeakRef t) = Inr (if t \<in> gone h then Undefined else t)"
| "deref h (Direct v) = (case tagged h v of None \<Rightarrow> Inl TypeError | Some r \<Rightarrow> r)"

text \<open>\<open>isWeakRef(k) ? k.deref() : k\<close>\<close>

fun unbox :: "heap \<Rightarrow> boxed \<Rightarrow> error + val" where
  "unbox h (WeakRef t) = deref h (WeakRef t)"
| "unbox h (Direct v) = (if isWeakRef h (Direct v) then deref h (Direct v) else Inr v)"

text \<open>\<open>isNonNullObject(x) ? new WeakRef(x) : x\<close>\<close>

definition box :: "val \<Rightarrow> boxed" where
  "box x = (if isNonNullObject x then WeakRef x else Direct x)"

text \<open>
  The value slot of a node holds the private symbol \<open>NO_VALUE\<close> or a stored result;
  \<open>getValueAt\<close> returns \<open>NO_VALUE\<close> or a value. No user value is \<open>NO_VALUE\<close>: the
  symbol never leaves the closure.
\<close>

datatype 'a slot = NO_VALUE | Value 'a

text \<open>
  A node: \<open>cache\<close>, a \<open>Map\<close> in insertion order from keys to child nodes, and
  \<open>value\<close> (\<open>nvalue\<close> here). A child node is referenced by its parent's map only, so
  the tree is a value.
\<close>

datatype node = Node (cache: "(boxed \<times> node) list") (nvalue: "boxed slot")

definition createNode :: node where
  "createNode = Node [] NO_VALUE"

type_synonym compareT = "val \<Rightarrow> val \<Rightarrow> bool"

text \<open>
  The loop of \<open>getNode\<close> over \<open>node.cache.entries()\<close>: the child of the first entry
  whose unboxed key the comparator accepts, stored key first and probe key second;
  an error of \<open>k.deref()\<close> ends the loop. The comparator is the truth value of what
  the user's \<open>compare\<close> returns; a comparator that throws or changes the cache while
  it runs is not covered.
\<close>

fun firstMatch :: "heap \<Rightarrow> (boxed \<times> node) list \<Rightarrow> val \<Rightarrow> compareT \<Rightarrow> error + node option" where
  "firstMatch h [] key compare = Inr None"
| "firstMatch h ((k, nextNode) # entries) key compare =
     (case unbox h k of
        Inl e \<Rightarrow> Inl e
      | Inr key' \<Rightarrow>
          if compare key' key then Inr (Some nextNode)
          else firstMatch h entries key compare)"

definition getNode :: "heap \<Rightarrow> node \<Rightarrow> val \<Rightarrow> compareT \<Rightarrow> error + node option" where
  "getNode h node key compare = firstMatch h (cache node) key compare"

fun getValueAt :: "heap \<Rightarrow> node \<Rightarrow> compareT \<Rightarrow> val list \<Rightarrow> error + val slot" where
  "getValueAt h node compare [] =
     (case nvalue node of
        NO_VALUE \<Rightarrow> Inr NO_VALUE
      | Value b \<Rightarrow> (case unbox h b of Inl e \<Rightarrow> Inl e | Inr v \<Rightarrow> Inr (Value v)))"
| "getValueAt h node compare (key # keys) =
     (case getNode h node key compare of
        Inl e \<Rightarrow> Inl e
      | Inr None \<Rightarrow> Inr NO_VALUE
      | Inr (Some nextNode) \<Rightarrow> getValueAt h nextNode compare keys)"

text \<open>
  \<open>Map.prototype.set\<close>: an entry whose key is the same value (SameValueZero, under
  which \<open>NaN\<close> is itself) keeps its place and gets the new child; otherwise the entry
  is added at the end. A \<open>WeakRef\<close> key is a new object each time, so it is never
  the same as a key already there.
\<close>

fun sameValueZero :: "boxed \<Rightarrow> boxed \<Rightarrow> bool" where
  "sameValueZero (Direct a) (Direct b) = (a = b)"
| "sameValueZero k k' = False"

fun Map_set :: "(boxed \<times> node) list \<Rightarrow> boxed \<Rightarrow> node \<Rightarrow> (boxed \<times> node) list" where
  "Map_set [] key n = [(key, n)]"
| "Map_set ((k, n') # entries) key n =
     (if sameValueZero k key then (k, n) # entries
      else (k, n') # Map_set entries key n)"

text \<open>
  \<open>setValueAt\<close> goes on inside the node that \<open>getNode\<close> returned, which is the child
  of the first matching entry: the tree with that child replaced.
\<close>

fun replaceFirst ::
  "heap \<Rightarrow> (boxed \<times> node) list \<Rightarrow> val \<Rightarrow> compareT \<Rightarrow> node \<Rightarrow> (boxed \<times> node) list" where
  "replaceFirst h [] key compare n = []"
| "replaceFirst h ((k, nextNode) # entries) key compare n =
     (if (case unbox h k of Inl e \<Rightarrow> False | Inr key' \<Rightarrow> compare key' key)
      then (k, n) # entries
      else (k, nextNode) # replaceFirst h entries key compare n)"

text \<open>
  \<open>registry.register\<close> only schedules a later pruning pass and changes nothing a
  lookup reads, so it has no counterpart here. An error of \<open>getNode\<close> leaves
  \<open>setValueAt\<close> before anything is changed: it can only come from a node that was
  there before, and below a node that \<open>setValueAt\<close> has just made all maps are empty.
\<close>

fun setValueAt :: "heap \<Rightarrow> node \<Rightarrow> compareT \<Rightarrow> val \<Rightarrow> val list \<Rightarrow> error + node" where
  "setValueAt h node compare v [] = Inr (Node (cache node) (Value (box v)))"
| "setValueAt h node compare v (key # keys) =
     (case getNode h node key compare of
        Inl e \<Rightarrow> Inl e
      | Inr None \<Rightarrow>
          (case setValueAt h createNode compare v keys of
             Inl e \<Rightarrow> Inl e
           | Inr n \<Rightarrow> Inr (Node (Map_set (cache node) (box key) n) (nvalue node)))
      | Inr (Some nextNode) \<Rightarrow>
          (case setValueAt h nextNode compare v keys of
             Inl e \<Rightarrow> Inl e
           | Inr n \<Rightarrow> Inr (Node (replaceFirst h (cache node) key compare n) (nvalue node))))"

subsection \<open>Key resolution\<close>

text \<open>
  The user's functions are functions of their argument list that return or throw.
  They do not call the wrapper themselves.

  The wrapper spreads \<open>keys\<close> twice in one call: in the call of \<open>getValueAt\<close> and,
  after a miss, in the call of \<open>setValueAt\<close>. What \<open>keys\<close> is to the wrapper is
  therefore what each of the two spreads does: it raises (a \<open>TypeError\<close> for a
  value that is not iterable, or what the iterator throws) or it yields a list.
  An array yields its elements both times; a generator, which can be consumed once,
  yields its elements the first time and nothing the second.
\<close>

type_synonym spreads = "(error + val list) \<times> (error + val list)"

definition array :: "val list \<Rightarrow> spreads" where
  "array elements = (Inr elements, Inr elements)"

text \<open>What \<open>select\<close> returns: the value, and what its two spreads do.\<close>

type_synonym selected = "val \<times> spreads"

type_synonym fnT = "val list \<Rightarrow> error + val"
type_synonym hashT = "val list \<Rightarrow> error + val"
type_synonym selectT = "val list \<Rightarrow> error + selected"

text \<open>
  The conditional that computes \<open>keys\<close>. With both options \<open>hash\<close> receives one
  argument, the value \<open>select\<close> returned. With neither, \<open>keys\<close> is \<open>arguments\<close>.
\<close>

definition resolveKeys :: "hashT option \<Rightarrow> selectT option \<Rightarrow> val list \<Rightarrow> error + spreads" where
  "resolveKeys hash select arguments =
     (case hash of
        Some h \<Rightarrow>
          (case select of
             Some s \<Rightarrow>
               (case s arguments of
                  Inl e \<Rightarrow> Inl e
                | Inr sel \<Rightarrow>
                    (case h [fst sel] of Inl e \<Rightarrow> Inl e | Inr k \<Rightarrow> Inr (array [k])))
           | None \<Rightarrow> (case h arguments of Inl e \<Rightarrow> Inl e | Inr k \<Rightarrow> Inr (array [k])))
      | None \<Rightarrow>
          (case select of
             Some s \<Rightarrow> (case s arguments of Inl e \<Rightarrow> Inl e | Inr sel \<Rightarrow> Inr (snd sel))
           | None \<Rightarrow> Inr (array arguments)))"

subsection \<open>The memoizing wrapper\<close>

text \<open>
  The closure that \<open>Function.memoize\<close> returns: the variables it captures. \<open>rootNode\<close>
  is declared \<open>const\<close>. \<open>calls\<close> is not in the source: it records the argument lists
  that \<open>fn\<close> has been applied to, oldest first, so that invocations can be counted.
\<close>

record wrapper =
  fn :: fnT
  hash :: "hashT option"
  select :: "selectT option"
  compare :: compareT
  rootNode :: node
  calls :: "val list list"

text \<open>
  One call of the wrapped function, under the mode flag and the heap of the moment.
  The lookup uses the first spread of \<open>keys\<close>, the insertion the second. On a miss
  in constrained mode the statement \<open>rootNode = createNode()\<close> assigns to a \<open>const\<close>
  binding, which raises a \<open>TypeError\<close> after \<open>fn\<close> has run and before \<open>setValueAt\<close>.
\<close>

definition wrapped :: "bool \<Rightarrow> heap \<Rightarrow> wrapper \<Rightarrow> val list \<Rightarrow> (error + val) \<times> wrapper" where
  "wrapped isSystemMemoryConstrained h w arguments =
     (case resolveKeys (hash w) (select w) arguments of
        Inl e \<Rightarrow> (Inl e, w)
      | Inr keys \<Rightarrow>
          (case fst keys of
             Inl e \<Rightarrow> (Inl e, w)
           | Inr lookupKeys \<Rightarrow>
               (case getValueAt h (rootNode w) (compare w) lookupKeys of
                  Inl e \<Rightarrow> (Inl e, w)
                | Inr (Value v) \<Rightarrow> (Inr v, w)
                | Inr NO_VALUE \<Rightarrow>
                    (let w' = w\<lparr>calls := calls w @ [arguments]\<rparr> in
                     case fn w arguments of
                       Inl e \<Rightarrow> (Inl e, w')
                     | Inr v \<Rightarrow>
                         if isSystemMemoryConstrained then (Inl TypeError, w')
                         else
                           (case snd keys of
                              Inl e \<Rightarrow> (Inl e, w')
                            | Inr insertKeys \<Rightarrow>
                                (case setValueAt h (rootNode w) (compare w) v insertKeys of
                                   Inl e \<Rightarrow> (Inl e, w')
                                 | Inr root \<Rightarrow> (Inr v, w'\<lparr>rootNode := root\<rparr>)))))))"

subsection \<open>Options\<close>

text \<open>
  A property of \<open>opts\<close> is a function or some other value, \<open>Other Undefined\<close> when the
  property is missing. \<open>opts\<close> itself is \<open>None\<close> when it is falsy (not passed, \<open>null\<close>).
\<close>

datatype 'f property = Function 'f | Other val

record opts =
  opts_hash :: "hashT property"
  opts_select :: "selectT property"
  opts_compare :: "compareT property"

text \<open>\<open>opts && typeof opts.p === "function" ? opts.p : d\<close>\<close>

definition functionOr :: "opts option \<Rightarrow> (opts \<Rightarrow> 'f property) \<Rightarrow> 'd \<Rightarrow> ('f \<Rightarrow> 'd) \<Rightarrow> 'd" where
  "functionOr os p d use =
     (case os of
        None \<Rightarrow> d
      | Some ob \<Rightarrow> (case p ob of Function f \<Rightarrow> use f | Other v \<Rightarrow> d))"

text \<open>The closure \<open>Function.memoize(fn, opts)\<close> builds, before it is registered.\<close>

definition closure :: "fnT \<Rightarrow> opts option \<Rightarrow> wrapper" where
  "closure f os =
     \<lparr>fn = f,
      hash = functionOr os opts_hash None Some,
      select = functionOr os opts_select None Some,
      compare = functionOr os opts_compare referenitalEquality (\<lambda>c. c),
      rootNode = createNode,
      calls = []\<rparr>"

subsection \<open>The module: registry of roots and memory mode\<close>

text \<open>
  The state shared by all wrappers, with the heap. \<open>wrappers\<close> holds the closures
  that are still reachable, by identity. \<open>cacheInstances\<close> is the \<open>Set\<close> of
  \<open>WeakRef\<close>s to root nodes, in insertion order, each given as the identity of the
  wrapper that owns the root: it dereferences to that root while the wrapper is
  reachable.
\<close>

record world =
  wrappers :: "nat \<rightharpoonup> wrapper"
  cacheInstances :: "nat list"
  isSystemMemoryConstrained :: bool
  store :: heap

definition initial :: world where
  "initial = \<lparr>wrappers = Map.empty, cacheInstances = [],
              isSystemMemoryConstrained = False,
              store = \<lparr>gone = {}, tagged = (\<lambda>v. None)\<rparr>\<rparr>"

definition memoize :: "world \<Rightarrow> fnT \<Rightarrow> opts option \<Rightarrow> nat \<times> world" where
  "memoize W f os =
     (let i = length (cacheInstances W) in
      (i, W\<lparr>wrappers := (wrappers W)(i \<mapsto> closure f os),
            cacheInstances := cacheInstances W @ [i]\<rparr>))"

text \<open>
  A call of wrapper \<open>i\<close>: its outcome and the module afterwards. Where \<open>i\<close> names no
  reachable wrapper there is nothing to call: no outcome, and nothing changes.
\<close>

definition call :: "world \<Rightarrow> nat \<Rightarrow> val list \<Rightarrow> (error + val) option \<times> world" where
  "call W i arguments =
     (case wrappers W i of
        None \<Rightarrow> (None, W)
      | Some w \<Rightarrow>
          (case wrapped (isSystemMemoryConstrained W) (store W) w arguments of
             (r, w') \<Rightarrow> (Some r, W\<lparr>wrappers := (wrappers W)(i \<mapsto> w')\<rparr>)))"

text \<open>The collector reclaims an object that the program can no longer reach.\<close>

definition reclaim :: "val \<Rightarrow> world \<Rightarrow> world" where
  "reclaim ob W = W\<lparr>store := (store W)\<lparr>gone := insert ob (gone (store W))\<rparr>\<rparr>"

text \<open>
  The program gives a value the \<open>toString\<close> tag \<open>"WeakRef"\<close>, with what its \<open>deref()\<close>
  does, or takes the tag away.
\<close>

definition retag :: "val \<Rightarrow> (error + val) option \<Rightarrow> world \<Rightarrow> world" where
  "retag v t W = W\<lparr>store := (store W)\<lparr>tagged := (tagged (store W))(v := t)\<rparr>\<rparr>"

text \<open>
  \<open>flushCaches\<close>, entry by entry. For a reference whose root is gone the source calls
  \<open>cacheInstances.delete(cacheInstance)\<close> with \<open>cacheInstance\<close> undefined, which is
  not an element, so nothing is removed. For a live root it assigns to the \<open>const\<close>
  \<open>cacheInstance\<close>, which raises a \<open>TypeError\<close> and ends the loop.
\<close>

fun flushEach :: "world \<Rightarrow> nat list \<Rightarrow> error option" where
  "flushEach W [] = None"
| "flushEach W (wrappedCacheInstance # rest) =
     (case map_option rootNode (wrappers W wrappedCacheInstance) of
        None \<Rightarrow> flushEach W rest
      | Some cacheInstance \<Rightarrow> Some TypeError)"

definition flushCaches :: "world \<Rightarrow> error option" where
  "flushCaches W = flushEach W (cacheInstances W)"

text \<open>
  The callback of the memory observer. The sample enters as the truth value of
  \<open>usedJSHeapSize / jsHeapSizeLimit >= 0.8\<close>. An error of \<open>flushCaches\<close> leaves the
  callback before the flag is assigned.
\<close>

definition memoryCallback :: "bool \<Rightarrow> world \<Rightarrow> error option \<times> world" where
  "memoryCallback shouldBeConstrained W =
     (case (if shouldBeConstrained \<and> \<not> isSystemMemoryConstrained W
            then flushCaches W else None) of
        Some e \<Rightarrow> (Some e, W)
      | None \<Rightarrow> (None, W\<lparr>isSystemMemoryConstrained := shouldBeConstrained\<rparr>))"

text \<open>What a lookup of \<open>keys\<close> in wrapper \<open>i\<close> finds, and the root of wrapper \<open>i\<close>.\<close>

definition lookup :: "world \<Rightarrow> nat \<Rightarrow> val list \<Rightarrow> (error + val slot) option" where
  "lookup W i keys =
     map_option (\<lambda>w. getValueAt (store W) (rootNode w) (compare w) keys) (wrappers W i)"

definition rootOf :: "world \<Rightarrow> nat \<Rightarrow> node option" where
  "rootOf W i = map_option rootNode (wrappers W i)"

text \<open>The argument lists that wrapper \<open>i\<close> has applied \<open>fn\<close> to.\<close>

definition invocations :: "world \<Rightarrow> nat \<Rightarrow> val list list option" where
  "invocations W i = map_option calls (wrappers W i)"

subsection \<open>Pruning\<close>

text \<open>
  The loop of \<open>pruneNodeCache\<close> over the entries of one \<open>Map\<close>: an entry goes when
  \<open>isWeakRef(k) && !k.deref()\<close>, which for a \<open>WeakRef\<close> to an object means that the
  object has been reclaimed. An error of \<open>k.deref()\<close> ends the loop with the
  entries removed so far.
\<close>

fun pruneNodeCache :: "heap \<Rightarrow> (boxed \<times> node) list \<Rightarrow> error option \<times> (boxed \<times> node) list" where
  "pruneNodeCache h [] = (None, [])"
| "pruneNodeCache h ((k, v) # entries) =
     (if isWeakRef h k then
        (case deref h k of
           Inl e \<Rightarrow> (Some e, (k, v) # entries)
         | Inr t \<Rightarrow>
             (case pruneNodeCache h entries of
                (e, rest) \<Rightarrow> (e, if falsy t then rest else (k, v) # rest)))
      else (case pruneNodeCache h entries of (e, rest) \<Rightarrow> (e, (k, v) # rest)))"

subsection \<open>Histories of the module\<close>

text \<open>
  What happens to the module from outside, one event at a time: a memory sample
  reaches the observer's callback, a function is memoized, a wrapper is called, the
  collector reclaims an object, the program changes the tag of a value. \<open>run\<close> plays
  a history and lists what each event returned (\<open>Inr\<close>) or raised (\<open>Inl\<close>); \<open>None\<close>
  where there is neither. The module takes its first sample while it is loaded
  (\<open>memoryObserver.observe()\<close>), before any function can be memoized, so a history
  starts with a \<open>Sample\<close>.
\<close>

datatype event =
    Sample bool
  | Memoize fnT "opts option"
  | Call nat "val list"
  | Reclaim val
  | Retag val "(error + val) option"

fun step :: "world \<Rightarrow> event \<Rightarrow> (error + val) option \<times> world" where
  "step W (Sample shouldBeConstrained) =
     (case memoryCallback shouldBeConstrained W of (e, W') \<Rightarrow> (map_option Inl e, W'))"
| "step W (Memoize f os) = (None, snd (memoize W f os))"
| "step W (Call i arguments) = call W i arguments"
| "step W (Reclaim ob) = (None, reclaim ob W)"
| "step W (Retag v t) = (None, retag v t W)"

fun run :: "world \<Rightarrow> event list \<Rightarrow> (error + val) option list \<times> world" where
  "run W [] = ([], W)"
| "run W (ev # evs) =
     (case step W ev of (r, W') \<Rightarrow> (case run W' evs of (rs, W'') \<Rightarrow> (r # rs, W'')))"

text \<open>The heap in which the objects \<open>S\<close> have been reclaimed and no value is tagged.\<close>

definition heapWith :: "val set \<Rightarrow> heap" where
  "heapWith S = \<lparr>gone = S, tagged = (\<lambda>v. None)\<rparr>"

text \<open>
  Functions to memoize and options to pass, for the histories below:
  \<open>() => v\<close>,
\<close>

definition always :: "val \<Rightarrow> fnT" where
  "always v arguments = Inr v"

text \<open>\<open>x => x\<close> and \<open>x => x === undefined\<close>, where a parameter without argument is \<open>undefined\<close>,\<close>

definition identity :: fnT where
  "identity arguments = Inr (case arguments of [] \<Rightarrow> Undefined | x # rest \<Rightarrow> x)"

definition isUndefined :: fnT where
  "isUndefined arguments =
     Inr (Bool (case arguments of [] \<Rightarrow> True | x # rest \<Rightarrow> x = Undefined))"

text \<open>\<open>x => { if (x === undefined) throw "boom"; return 1 }\<close>,\<close>

definition failsOnUndefined :: fnT where
  "failsOnUndefined arguments =
     (if (case arguments of [] \<Rightarrow> True | x # rest \<Rightarrow> x = Undefined)
      then Inl (Thrown (Str ''boom'')) else Inr (Num 1))"

text \<open>and \<open>(...a) => a.length\<close>.\<close>

definition count :: fnT where
  "count arguments = Inr (Num (int (length arguments)))"


text \<open>
  Options that set \<open>select\<close> to the generator \<open>function* (...a) { yield* a }\<close> and
  nothing else: the generator object that a call returns yields the arguments when
  it is spread first and nothing when it is spread again.
\<close>

definition generator :: selectT where
  "generator arguments = Inr (Obj 0, (Inr arguments, Inr []))"

definition selectGenerator :: opts where
  "selectGenerator = \<lparr>opts_hash = Other Undefined, opts_select = Function generator,
                       opts_compare = Other Undefined\<rparr>"

section \<open>Properties\<close>

subsection \<open>Lookup after insertion\<close>







lemmas history_defs =
  memoryCallback_def initial_def flushCaches_def memoize_def call_def wrapped_def closure_def
  functionOr_def resolveKeys_def array_def createNode_def getNode_def Let_def always_def
  invocations_def lookup_def rootOf_def reclaim_def retag_def box_def isNonNullObject_def
  referenitalEquality_def heapWith_def

subsection \<open>Repeated calls\<close>







subsection \<open>Key resolution\<close>

text \<open>
  The key path that a lookup walks, when the user's functions return: with both
  \<open>hash\<close> and \<open>select\<close> the one key that \<open>hash\<close> makes of the value \<open>select\<close> returned;
  with \<open>hash\<close> alone the one key that \<open>hash\<close> makes of the arguments; with neither the
  arguments. In these three cases the insertion walks the same path.
\<close>

lemma resolveKeys_array:
  "(s arguments = Inr sel \<and> h [fst sel] = Inr k \<longrightarrow>
      resolveKeys (Some h) (Some s) arguments = Inr (Inr [k], Inr [k])) \<and>
   (h arguments = Inr k \<longrightarrow> resolveKeys (Some h) None arguments = Inr (Inr [k], Inr [k])) \<and>
   resolveKeys None None arguments = Inr (Inr arguments, Inr arguments)"
  by (simp add: resolveKeys_def array_def)

text \<open>
  C2. With \<open>select\<close> alone the lookup walks the elements that the first spread of
  the returned value yields, and the insertion those that the second spread yields.
  The function \<open>(...a) => a.length\<close> is memoized with the generator
  \<open>function* (...a) { yield* a }\<close> as \<open>select\<close> and called with \<open>(4, 5)\<close> twice, then
  without arguments. The first call looks up the path \<open>4, 5\<close> and stores its result
  \<open>2\<close> under the empty path, in the slot of the root, with no level for \<open>4\<close> or \<open>5\<close>.
  The second call misses and invokes \<open>fn\<close> again. The third call, whose path is
  empty, returns the \<open>2\<close> of the root without invoking \<open>fn\<close>, which returns \<open>0\<close> for no
  arguments.
\<close>

theorem generator_path_is_stored_at_root:
  "resolveKeys None (Some generator) [Num 4, Num 5] = Inr (Inr [Num 4, Num 5], Inr []) \<and>
   fst (run initial
     [Sample False, Memoize count (Some selectGenerator), Call 0 [Num 4, Num 5],
      Call 0 [Num 4, Num 5], Call 0 []])
     = [None, None, Some (Inr (Num 2)), Some (Inr (Num 2)), Some (Inr (Num 2))] \<and>
   rootOf (snd (run initial
     [Sample False, Memoize count (Some selectGenerator), Call 0 [Num 4, Num 5]])) 0
     = Some (Node [] (Value (Direct (Num 2)))) \<and>
   invocations (snd (run initial
     [Sample False, Memoize count (Some selectGenerator), Call 0 [Num 4, Num 5],
      Call 0 [Num 4, Num 5], Call 0 []])) 0
     = Some [[Num 4, Num 5], [Num 4, Num 5]] \<and>
   count [] = Inr (Num 0)"
  by (simp add: history_defs selectGenerator_def generator_def count_def)

subsection \<open>Failure of the memoized function\<close>

text \<open>
  If a call misses and \<open>fn\<close> throws, the call raises what \<open>fn\<close> threw and the wrapper
  is as before except that \<open>fn\<close> has been applied once more: the root is the same.
  While the heap stays as it is, the next call that is looked up under that key
  path, in either memory mode, applies \<open>fn\<close> again.
\<close>

lemma failure_leaves_cache:
  assumes "resolveKeys (hash w) (select w) arguments = Inr (Inr keys, again)"
    and "getValueAt h (rootNode w) (compare w) keys = Inr NO_VALUE"
    and "fn w arguments = Inl e"
    and "resolveKeys (hash w) (select w) arguments' = Inr (Inr keys, again')"
  shows "wrapped c h w arguments = (Inl e, w\<lparr>calls := calls w @ [arguments]\<rparr>) \<and>
         rootNode (snd (wrapped c h w arguments)) = rootNode w \<and>
         calls (snd (wrapped c' h (snd (wrapped c h w arguments)) arguments'))
           = calls w @ [arguments, arguments']"
proof -
  have first: "wrapped c h w arguments = (Inl e, w\<lparr>calls := calls w @ [arguments]\<rparr>)"
    using assms(1-3) by (simp add: wrapped_def Let_def)
  have "calls (snd (wrapped c' h (w\<lparr>calls := calls w @ [arguments]\<rparr>) arguments'))
      = calls w @ [arguments, arguments']"
    using assms(2,4) by (simp add: wrapped_def Let_def split: sum.splits)
  with first show ?thesis by simp
qed

text \<open>
  C6. The function \<open>x => { if (x === undefined) throw "boom"; return 1 }\<close> is memoized
  with the default comparator and called with the object \<open>Obj 3\<close>, which caches \<open>1\<close>,
  then with \<open>undefined\<close>: the call misses, \<open>fn\<close> throws and the call raises \<open>"boom"\<close>.
  If the next call with \<open>undefined\<close> follows at once, it invokes \<open>fn\<close> again and raises
  again. If the object is reclaimed in between, the dead key dereferences to
  \<open>undefined\<close> and matches the probe key: the next call with \<open>undefined\<close> returns the
  \<open>1\<close> cached for the object and does not invoke \<open>fn\<close>.
\<close>

theorem failure_then_dead_key_hit:
  "failsOnUndefined [Undefined] = Inl (Thrown (Str ''boom'')) \<and>
   fst (run initial
     [Sample False, Memoize failsOnUndefined None, Call 0 [Obj 3], Call 0 [Undefined],
      Call 0 [Undefined]])
     = [None, None, Some (Inr (Num 1)), Some (Inl (Thrown (Str ''boom''))),
        Some (Inl (Thrown (Str ''boom'')))] \<and>
   invocations (snd (run initial
     [Sample False, Memoize failsOnUndefined None, Call 0 [Obj 3], Call 0 [Undefined],
      Call 0 [Undefined]])) 0
     = Some [[Obj 3], [Undefined], [Undefined]] \<and>
   fst (run initial
     [Sample False, Memoize failsOnUndefined None, Call 0 [Obj 3], Call 0 [Undefined],
      Reclaim (Obj 3), Call 0 [Undefined]])
     = [None, None, Some (Inr (Num 1)), Some (Inl (Thrown (Str ''boom''))), None,
        Some (Inr (Num 1))] \<and>
   invocations (snd (run initial
     [Sample False, Memoize failsOnUndefined None, Call 0 [Obj 3], Call 0 [Undefined],
      Reclaim (Obj 3), Call 0 [Undefined]])) 0
     = Some [[Obj 3], [Undefined]]"
  by (simp add: history_defs failsOnUndefined_def)

subsection \<open>Options that are not functions\<close>

text \<open>
  C9. An option whose value is not a function leaves the closure that \<open>memoize\<close> builds
  the same as if the option were missing: no \<open>hash\<close>, no \<open>select\<close>, the comparator
  \<open>===\<close>. With no function among the three the closure is the one built without
  options. \<open>memoize\<close> has no failing branch: it always registers that closure.
\<close>

theorem non_function_option_is_absent:
  "closure f (Some (ob\<lparr>opts_hash := Other v\<rparr>))
     = closure f (Some (ob\<lparr>opts_hash := Other Undefined\<rparr>)) \<and>
   hash (closure f (Some (ob\<lparr>opts_hash := Other v\<rparr>))) = None \<and>
   closure f (Some (ob\<lparr>opts_select := Other v\<rparr>))
     = closure f (Some (ob\<lparr>opts_select := Other Undefined\<rparr>)) \<and>
   select (closure f (Some (ob\<lparr>opts_select := Other v\<rparr>))) = None \<and>
   closure f (Some (ob\<lparr>opts_compare := Other v\<rparr>))
     = closure f (Some (ob\<lparr>opts_compare := Other Undefined\<rparr>)) \<and>
   compare (closure f (Some (ob\<lparr>opts_compare := Other v\<rparr>))) = referenitalEquality \<and>
   closure f (Some \<lparr>opts_hash = Other v1, opts_select = Other v2, opts_compare = Other v3\<rparr>)
     = closure f None \<and>
   wrappers (snd (memoize W f os)) (fst (memoize W f os)) = Some (closure f os) \<and>
   fst (memoize W f os) \<in> set (cacheInstances (snd (memoize W f os)))"
  by (simp add: closure_def functionOr_def memoize_def Let_def)

subsection \<open>Weak handles\<close>

text \<open>
  C8. The function \<open>x => x\<close> is memoized and called with a function, \<open>Fun 0\<close>, which is
  not a primitive. The key and the result are stored directly, not through a
  \<open>WeakRef\<close>: the cache holds the function strongly. An object in the same place is
  held through a \<open>WeakRef\<close>, as key and as result.
\<close>

theorem function_is_held_strongly:
  "\<not> primitive (Fun 0) \<and> typeof (Fun 0) = ''function'' \<and> \<not> isNonNullObject (Fun 0) \<and>
   fst (run initial [Sample False, Memoize identity None, Call 0 [Fun 0]])
     = [None, None, Some (Inr (Fun 0))] \<and>
   rootOf (snd (run initial [Sample False, Memoize identity None, Call 0 [Fun 0]])) 0
     = Some (Node [(Direct (Fun 0), Node [] (Value (Direct (Fun 0))))] NO_VALUE) \<and>
   rootOf (snd (run initial [Sample False, Memoize identity None, Call 0 [Obj 0]])) 0
     = Some (Node [(WeakRef (Obj 0), Node [] (Value (WeakRef (Obj 0))))] NO_VALUE)"
  by (simp add: history_defs identity_def)

text \<open>
  A function stored directly is read by its tag: once the program tags the function
  \<open>Fun 0\<close> as \<open>"WeakRef"\<close>, with no \<open>deref\<close> method, the lookup of the next call calls
  \<open>deref()\<close> on the stored key and the call raises a \<open>TypeError\<close>.
\<close>

lemma tagged_function_key_raises:
  "fst (run initial
     [Sample False, Memoize (always (Num 7)) None, Call 0 [Fun 0],
      Retag (Fun 0) (Some (Inl TypeError)), Call 0 [Fun 0]])
     = [None, None, Some (Inr (Num 7)), None, Some (Inl TypeError)]"
  by (simp add: history_defs)

subsection \<open>Constrained mode\<close>

text \<open>
  In constrained mode every miss on which \<open>fn\<close> returns ends in the \<open>TypeError\<close> of
  the assignment to \<open>rootNode\<close>: \<open>fn\<close> has run, and the root is the one before.
\<close>

lemma constrained_miss_raises:
  assumes "resolveKeys (hash w) (select w) arguments = Inr (Inr keys, again)"
    and "getValueAt h (rootNode w) (compare w) keys = Inr NO_VALUE"
    and "fn w arguments = Inr v"
  shows "wrapped True h w arguments = (Inl TypeError, w\<lparr>calls := calls w @ [arguments]\<rparr>)"
  using assms by (simp add: wrapped_def Let_def)

text \<open>
  C3. The module takes its first sample with the heap at or above the mark, so the
  mode is constrained. A function is memoized and called with \<open>1\<close>, then with \<open>2\<close>.
  Both calls raise a \<open>TypeError\<close>, the mode is still constrained, and neither key
  path is retrievable afterwards, the second no more than the first.
\<close>

theorem constrained_insertion_raises:
  "fst (run initial [Sample True, Memoize (always (Num 7)) None, Call 0 [Num 1], Call 0 [Num 2]])
     = [None, None, Some (Inl TypeError), Some (Inl TypeError)] \<and>
   isSystemMemoryConstrained
     (snd (run initial [Sample True, Memoize (always (Num 7)) None, Call 0 [Num 1], Call 0 [Num 2]])) \<and>
   lookup
     (snd (run initial [Sample True, Memoize (always (Num 7)) None, Call 0 [Num 1], Call 0 [Num 2]]))
     0 [Num 2] = Some (Inr NO_VALUE) \<and>
   lookup
     (snd (run initial [Sample True, Memoize (always (Num 7)) None, Call 0 [Num 1], Call 0 [Num 2]]))
     0 [Num 1] = Some (Inr NO_VALUE)"
  by (simp add: history_defs)

subsection \<open>The flush on rising pressure\<close>

lemma flushEach_live:
  "i \<in> set refs \<Longrightarrow> wrappers W i = Some w \<Longrightarrow> flushEach W refs = Some TypeError"
  by (induction refs) (auto split: option.splits)

text \<open>
  With a live root in the registry, a sample at or above the mark that arrives in
  normal mode raises a \<open>TypeError\<close> and leaves the module as it was, the mode
  included. No sample changes any wrapper.
\<close>

lemma rising_edge_raises:
  assumes "\<not> isSystemMemoryConstrained W" and "i \<in> set (cacheInstances W)"
    and "wrappers W i = Some w"
  shows "memoryCallback True W = (Some TypeError, W)"
  using assms flushEach_live [of i "cacheInstances W" W w]
  by (simp add: memoryCallback_def flushCaches_def)

lemma memoryCallback_wrappers:
  "wrappers (snd (memoryCallback shouldBeConstrained W)) = wrappers W"
  by (simp add: memoryCallback_def split: option.splits)

text \<open>
  C4. A function is memoized and called with \<open>1\<close> in normal mode, which caches \<open>7\<close>.
  Then a sample at or above the mark arrives. The callback raises a \<open>TypeError\<close>; the
  cached entry is still found, the mode is still normal, and the next call with \<open>1\<close>
  returns the cached \<open>7\<close> without invoking \<open>fn\<close>.
\<close>

theorem rising_edge_keeps_entries:
  "fst (run initial [Sample False, Memoize (always (Num 7)) None, Call 0 [Num 1], Sample True, Call 0 [Num 1]])
     = [None, None, Some (Inr (Num 7)), Some (Inl TypeError), Some (Inr (Num 7))] \<and>
   lookup (snd (run initial [Sample False, Memoize (always (Num 7)) None, Call 0 [Num 1], Sample True])) 0 [Num 1]
     = Some (Inr (Value (Num 7))) \<and>
   \<not> isSystemMemoryConstrained
     (snd (run initial [Sample False, Memoize (always (Num 7)) None, Call 0 [Num 1], Sample True])) \<and>
   invocations
     (snd (run initial [Sample False, Memoize (always (Num 7)) None, Call 0 [Num 1], Sample True, Call 0 [Num 1]])) 0
     = Some [[Num 1]]"
  by (simp add: history_defs)

subsection \<open>Reclaimed objects\<close>

text \<open>
  C5. A function that makes an object is memoized and called with \<open>1\<close>, which returns
  the new object \<open>Obj 9\<close>; the caller drops the object and it is reclaimed; the
  function is called with \<open>1\<close> again. The lookup of the second call finds \<open>undefined\<close>
  in place of \<open>NO_VALUE\<close>: the call returns \<open>undefined\<close>, and \<open>fn\<close> has been invoked once
  only.
\<close>

theorem reclaimed_result_is_undefined:
  "fst (run initial [Sample False, Memoize (always (Obj 9)) None, Call 0 [Num 1], Reclaim (Obj 9), Call 0 [Num 1]])
     = [None, None, Some (Inr (Obj 9)), None, Some (Inr Undefined)] \<and>
   invocations
     (snd (run initial
        [Sample False, Memoize (always (Obj 9)) None, Call 0 [Num 1], Reclaim (Obj 9),
         Call 0 [Num 1]])) 0
     = Some [[Num 1]] \<and>
   getValueAt (heapWith {Obj 9}) (Node [] (Value (WeakRef (Obj 9)))) referenitalEquality []
     = Inr (Value Undefined)"
  by (simp add: history_defs)

text \<open>
  C7. The function \<open>x => x === undefined\<close> is memoized with the default comparator
  and called with the object \<open>Obj 3\<close>; the object is reclaimed; the function is called
  with \<open>undefined\<close>. The dead key dereferences to \<open>undefined\<close>, which the comparator
  accepts against the probe key: \<open>getNode\<close> returns the dead entry's node, and the call
  returns \<open>false\<close>, the result cached for the object, without invoking \<open>fn\<close>, which
  returns \<open>true\<close> for \<open>undefined\<close>. A pruning pass would have removed the entry.
\<close>

theorem dead_key_matches_undefined:
  "fst (run initial [Sample False, Memoize isUndefined None, Call 0 [Obj 3], Reclaim (Obj 3), Call 0 [Undefined]])
     = [None, None, Some (Inr (Bool False)), None, Some (Inr (Bool False))] \<and>
   invocations
     (snd (run initial
        [Sample False, Memoize isUndefined None, Call 0 [Obj 3], Reclaim (Obj 3),
         Call 0 [Undefined]])) 0
     = Some [[Obj 3]] \<and>
   isUndefined [Undefined] = Inr (Bool True) \<and>
   getNode (heapWith {Obj 3})
     (Node [(WeakRef (Obj 3), Node [] (Value (Direct (Bool False))))] NO_VALUE)
     Undefined referenitalEquality
     = Inr (Some (Node [] (Value (Direct (Bool False))))) \<and>
   pruneNodeCache (heapWith {Obj 3}) [(WeakRef (Obj 3), Node [] (Value (Direct (Bool False))))]
     = (None, [])"
  by (simp add: history_defs isUndefined_def)

end
